theory Spec2Isabelle
  imports Complex_Main "HOL-Library.Word"
begin

section \<open>JavaScript values and plain objects\<close>

text \<open>
  The relay of \<^verbatim>\<open>src/index.js\<close> keeps its resolutions in the object literal
  \<^verbatim>\<open>const resolutionStore = {}\<close> and fills it with whatever value the parsed JSON
  body of a request carries. The values below are the ones \<^verbatim>\<open>JSON.parse\<close> produces,
  \<^verbatim>\<open>undefined\<close> (a field that is absent), and the built-in objects that a property
  read on a plain object reaches through its prototype chain. A JSON number is kept as
  the rational it denotes. A parsed object is the list of its own properties, one entry
  per key.
\<close>

datatype jsval =
    JUndefined
  | JNull
  | JBool bool
  | JNum rat
  | JStr string
  | JArr "jsval list"
  | JObj "(string \<times> jsval) list"
  | JBuiltin string

text \<open>\<^verbatim>\<open>!v\<close> is \<^verbatim>\<open>true\<close> exactly for the falsy values.\<close>

fun truthy :: "jsval \<Rightarrow> bool" where
  "truthy JUndefined = False"
| "truthy JNull = False"
| "truthy (JBool b) = b"
| "truthy (JNum n) = (n \<noteq> 0)"
| "truthy (JStr s) = (s \<noteq> [])"
| "truthy (JArr xs) = True"
| "truthy (JObj kvs) = True"
| "truthy (JBuiltin n) = True"

text \<open>
  \<^verbatim>\<open>String.prototype.toLowerCase\<close> on ASCII text, the alphabet of contract
  addresses: the letters A to Z move to a to z, every other character stays.
\<close>

definition lower_char :: "char \<Rightarrow> char" where
  "lower_char c =
     (case map_of (zip ''ABCDEFGHIJKLMNOPQRSTUVWXYZ'' ''abcdefghijklmnopqrstuvwxyz'') c of
        Some l \<Rightarrow> l
      | None \<Rightarrow> c)"

definition toLowerCase :: "string \<Rightarrow> string" where
  "toLowerCase s = map lower_char s"

text \<open>Decimal text of a natural number, as \<^verbatim>\<open>String(n)\<close> writes an array index.\<close>

definition digit_char :: "nat \<Rightarrow> char" where
  "digit_char d = ''0123456789'' ! d"

fun decimal :: "nat \<Rightarrow> string" where
  "decimal n = (if n < 10 then [digit_char n] else decimal (n div 10) @ [digit_char (n mod 10)])"

declare decimal.simps [simp del]





text \<open>
  A plain object: its own properties and its prototype. The prototype of an object
  literal is \<^verbatim>\<open>Object.prototype\<close>; the \<^verbatim>\<open>__proto__\<close> setter can replace it by
  \<^verbatim>\<open>null\<close> or by a parsed JSON object or array, whose own prototype chain ends in
  \<^verbatim>\<open>Object.prototype\<close> again.
\<close>

record js_object =
  own :: "string \<rightharpoonup> jsval"
  proto :: jsval

definition ObjectPrototype :: jsval where
  "ObjectPrototype = JBuiltin ''Object.prototype''"



text \<open>
  Whether an assignment to \<^verbatim>\<open>__proto__\<close> on an object with prototype \<open>p\<close> and no
  own property of that name reaches the accessor of \<^verbatim>\<open>Object.prototype\<close>: not under
  a \<^verbatim>\<open>null\<close> prototype, and not when a parsed object in between has an own data
  property \<^verbatim>\<open>__proto__\<close>.
\<close>

definition reaches_proto_setter :: "jsval \<Rightarrow> bool" where
  "reaches_proto_setter p =
     (case p of
        JBuiltin n \<Rightarrow> True
      | JArr xs \<Rightarrow> True
      | JObj kvs \<Rightarrow> map_of kvs ''__proto__'' = None
      | _ \<Rightarrow> False)"

definition is_object_or_null :: "jsval \<Rightarrow> bool" where
  "is_object_or_null v =
     (case v of JNull \<Rightarrow> True | JArr xs \<Rightarrow> True | JObj kvs \<Rightarrow> True | _ \<Rightarrow> False)"

text \<open>\<^verbatim>\<open>obj[k] = v\<close> in sloppy mode.\<close>

definition js_set :: "js_object \<Rightarrow> string \<Rightarrow> jsval \<Rightarrow> js_object" where
  "js_set obj k v =
     (if k = ''__proto__'' \<and> own obj k = None \<and> reaches_proto_setter (proto obj)
      then (if is_object_or_null v then obj\<lparr>proto := v\<rparr> else obj)
      else obj\<lparr>own := (own obj)(k \<mapsto> v)\<rparr>)"


section \<open>Numbers at the display boundary\<close>

text \<open>
  Stakes arrive as \<^verbatim>\<open>uint256\<close> values, which ethers hands over as BigInt; the
  quotient \<^verbatim>\<open>(userOptionPool * 100n) / totalPool\<close> is BigInt arithmetic and cannot
  overflow. \<^verbatim>\<open>Number(q)\<close> then rounds the quotient to the nearest double (53
  significant bits, ties to the even significand). The quotient of two \<^verbatim>\<open>uint256\<close>
  values stays below \<open>2 ^ 263\<close>, far inside the finite range of a double, so the result
  is always an integer and is kept as a natural number.
\<close>

type_synonym uint256 = "256 word"

fun bit_length :: "nat \<Rightarrow> nat" where
  "bit_length n = (if n = 0 then 0 else Suc (bit_length (n div 2)))"

declare bit_length.simps [simp del]

definition toNumber :: "nat \<Rightarrow> nat" where
  "toNumber n =
     (if n < 2 ^ 53 then n
      else
        let e = bit_length n - 53;
            q = n div 2 ^ e;
            r = n mod 2 ^ e;
            half = 2 ^ (e - 1)
        in (if half < r \<or> (r = half \<and> odd q) then q + 1 else q) * 2 ^ e)"

text \<open>
  \<^verbatim>\<open>Number.prototype.toString\<close> for an integer-valued double \<open>x\<close> of at least
  \<open>10 ^ 21\<close>: the shortest digit string \<open>s\<close> (of \<open>k\<close> digits) for which
  \<open>s * 10 ^ (n - k)\<close> rounds to \<open>x\<close>, the closest one when several of that length do
  (the even one on a tie), written in exponential notation. Seventeen digits always
  suffice for a double.
\<close>

definition digits_candidate :: "nat \<Rightarrow> nat \<Rightarrow> nat \<Rightarrow> (nat \<times> nat) option" where
  "digits_candidate x d k =
     (let p = 10 ^ (d - k);
          lo = x div p;
          ok_lo = (toNumber (lo * p) = x);
          ok_hi = (toNumber ((lo + 1) * p) = x);
          pick_hi = (ok_hi \<and> (\<not> ok_lo \<or> (lo + 1) * p - x < x - lo * p
                       \<or> ((lo + 1) * p - x = x - lo * p \<and> odd lo)))
      in if pick_hi then (if lo + 1 = 10 ^ k then Some (10 ^ (k - 1), d + 1) else Some (lo + 1, d))
         else if ok_lo then Some (lo, d)
         else None)"

definition shortest_digits :: "nat \<Rightarrow> nat \<times> nat" where
  "shortest_digits x =
     (let d = length (decimal x) in
      case List.map_filter (digits_candidate x d) [1..<18] of
        sn # _ \<Rightarrow> sn
      | [] \<Rightarrow> (x div 10 ^ (d - 17), d))"

definition exponential :: "nat \<Rightarrow> string" where
  "exponential x =
     (let (s, n) = shortest_digits x; ds = decimal s in
      (if length ds = 1 then ds else hd ds # CHR ''.'' # tl ds) @ ''e+'' @ decimal (n - 1))"

text \<open>
  \<^verbatim>\<open>x.toFixed(2)\<close> for an integer-valued double: the exact decimal digits and two
  zeros after the point below \<open>10 ^ 21\<close>, the text of \<^verbatim>\<open>String(x)\<close> from there on.
\<close>

definition toFixed2 :: "nat \<Rightarrow> string" where
  "toFixed2 x = (if x < 10 ^ 21 then decimal x @ ''.00'' else exponential x)"


section \<open>Responses\<close>

text \<open>
  The document \<^verbatim>\<open>res.json(metadata)\<close> of the metadata route: \<^verbatim>\<open>name\<close>,
  \<^verbatim>\<open>description\<close>, \<^verbatim>\<open>image\<close> (here \<open>image_url\<close>) and the list of
  \<^verbatim>\<open>attributes\<close>, each a pair of \<^verbatim>\<open>trait_type\<close> and \<^verbatim>\<open>value\<close> (here
  \<open>trait_value\<close>).
\<close>

record attribute =
  trait_type :: string
  trait_value :: string

record metadata =
  name :: string
  description :: string
  image_url :: string
  attributes :: "attribute list"

text \<open>
  The messages of the error bodies \<^verbatim>\<open>{ error: ... }\<close>, in source order: the invalid
  market address and the failed metadata read of the metadata route, the invalid API
  key of the middleware, the invalid body of the resolve route, the missing resolution
  of the read route. \<open>UncaughtException\<close> is the answer of the framework's default
  error handler when a synchronous route handler throws.
\<close>

datatype error_text =
    InvalidMarketAddress
  | MetadataFailed
  | Unauthorized
  | InvalidResolution
  | ResolutionNotFound
  | UncaughtException

text \<open>
  A response: the metadata document, the confirmation
  \<^verbatim>\<open>{ message, market, winner }\<close> of a stored resolution, the answer
  \<^verbatim>\<open>{ winningOptionIndex }\<close> of the read route (all with status 200), or a status
  with an error body.
\<close>

datatype response =
    MetadataDocument metadata
  | Stored string jsval
  | Resolution jsval
  | Failure nat error_text

fun status :: "response \<Rightarrow> nat" where
  "status (MetadataDocument m) = 200"
| "status (Stored market winner) = 200"
| "status (Resolution w) = 200"
| "status (Failure code msg) = code"

section \<open>The metadata route\<close>

text \<open>
  The chain is read through ethers: \<^verbatim>\<open>ethers.isAddress\<close> and one function per
  contract call of the two ABIs, each of which either returns the decoded value or
  throws. The first argument of a call is the address of the contract it goes to.
\<close>

datatype chain_error = ChainReadError

record market_option =
  option_name :: "256 word"
  option_totalPool :: uint256

record chain =
  isAddress :: "string \<Rightarrow> bool"
  positionNFT :: "string \<Rightarrow> chain_error + string"
  tokenOption :: "string \<Rightarrow> string \<Rightarrow> chain_error + uint256"
  options :: "string \<Rightarrow> nat \<Rightarrow> chain_error + market_option"
  totalPool :: "string \<Rightarrow> chain_error + uint256"
  isResolved :: "string \<Rightarrow> chain_error + bool"
  winningOptionIndex :: "string \<Rightarrow> chain_error + uint256"

datatype tier =
    initial
  | slight_advantage
  | huge_advantage
  | win
  | slight_disadvantage
  | huge_disadvantage
  | loss

fun imageUrls :: "tier \<Rightarrow> string" where
  "imageUrls initial = ''ipfs://bafybeihnupuikrn6zwq7aozfmtw7eppqf4hhrasyo2lpari7arz27i6pqq''"
| "imageUrls slight_advantage = ''ipfs://bafybeihnupuikrn6zwq7aozfmtw7eppqf4hhrasyo2lpari7arz27i6pqq''"
| "imageUrls huge_advantage = ''ipfs://bafybeiecjtvd4xxlyjlr2uagy2ermnkfyfhgbdzhqrp4coflmwef33o6pm''"
| "imageUrls win = ''ipfs://bafybeigeswyw24exdy5r4hvx2zg3yvfprcazhja5aowqwlvejeviizoomm''"
| "imageUrls slight_disadvantage = ''ipfs://bafybeihyqd3sltgm72vcn2mbd2tcm64qqxtmnm232a5rujnonox7j4w77q''"
| "imageUrls huge_disadvantage = ''ipfs://bafybeifubqeukm7q5fd5wxulstptokvbrq3jmdho6em5rh6kk4vi6mod2y''"
| "imageUrls loss = ''ipfs://bafybeihiaeifcob2wsqc5tqg6ae3voc5wzfuhp7pf2ln56t3njibbjhgkq''"

text \<open>
  Lines 130 to 135: \<^verbatim>\<open>odds\<close> starts at 50 and is recomputed when the total pool is
  positive, from the pool of option 0 when the position's option index is \<^verbatim>\<open>0n\<close> and
  from the pool of option 1 otherwise.
\<close>

definition userOptionPool :: "uint256 \<Rightarrow> market_option \<Rightarrow> market_option \<Rightarrow> uint256" where
  "userOptionPool userOptionIndex option0 option1 =
     (if userOptionIndex = 0 then option_totalPool option0 else option_totalPool option1)"

definition compute_odds :: "uint256 \<Rightarrow> market_option \<Rightarrow> market_option \<Rightarrow> uint256 \<Rightarrow> nat" where
  "compute_odds userOptionIndex option0 option1 totalPool' =
     (if 0 < unat totalPool'
      then toNumber ((unat (userOptionPool userOptionIndex option0 option1) * 100) div unat totalPool')
      else 50)"

text \<open>
  Lines 161 to 164: the image key of an unresolved market. \<^verbatim>\<open>currentImage\<close> keeps
  its initial value when no branch fires.
\<close>

definition unresolved_tier :: "nat \<Rightarrow> tier" where
  "unresolved_tier odds =
     (if odds > 75 then huge_advantage
      else if odds > 55 then slight_advantage
      else if odds < 25 then huge_disadvantage
      else if odds < 45 then slight_disadvantage
      else initial)"

text \<open>Lines 150 to 159: image key and \<^verbatim>\<open>Result\<close> value of a resolved market.\<close>

definition resolved_tier :: "uint256 \<Rightarrow> uint256 \<Rightarrow> tier" where
  "resolved_tier winningIndex userOptionIndex =
     (if winningIndex = userOptionIndex then win else loss)"

definition resolved_result :: "uint256 \<Rightarrow> uint256 \<Rightarrow> string" where
  "resolved_result winningIndex userOptionIndex =
     (if winningIndex = userOptionIndex then ''Won'' else ''Lost'')"

text \<open>Lines 167 to 175: the document.\<close>

definition build_metadata :: "string \<Rightarrow> tier \<Rightarrow> nat \<Rightarrow> string \<Rightarrow> metadata" where
  "build_metadata tokenId currentImage odds result =
     \<lparr> name = ''Prediction Market Position #'' @ tokenId,
       description = ''A dynamic NFT representing a position in a dBet prediction market.'',
       image_url = imageUrls currentImage,
       attributes =
         [ \<lparr> trait_type = ''Your Option Odds'', trait_value = toFixed2 odds @ ''%'' \<rparr>,
           \<lparr> trait_type = ''Result'', trait_value = result \<rparr> ] \<rparr>"

text \<open>
  The route handler. A throwing read lands in the \<^verbatim>\<open>catch\<close> block, which answers
  500 whatever was thrown. The four reads of \<^verbatim>\<open>Promise.all\<close> are issued together and
  the first rejection rejects the whole; the winning index is read only when the market
  is resolved.
\<close>

definition get_metadata :: "chain \<Rightarrow> string \<Rightarrow> string \<Rightarrow> response" where
  "get_metadata c marketAddress tokenId =
     (if \<not> isAddress c marketAddress then Failure 400 InvalidMarketAddress
      else case positionNFT c marketAddress of
        Inl e \<Rightarrow> Failure 500 MetadataFailed
      | Inr nftAddress \<Rightarrow>
      (case tokenOption c nftAddress tokenId of
        Inl e \<Rightarrow> Failure 500 MetadataFailed
      | Inr userOptionIndex \<Rightarrow>
      (case options c marketAddress 0 of
        Inl e \<Rightarrow> Failure 500 MetadataFailed
      | Inr option0 \<Rightarrow>
      (case options c marketAddress 1 of
        Inl e \<Rightarrow> Failure 500 MetadataFailed
      | Inr option1 \<Rightarrow>
      (case totalPool c marketAddress of
        Inl e \<Rightarrow> Failure 500 MetadataFailed
      | Inr totalPool' \<Rightarrow>
      (case isResolved c marketAddress of
        Inl e \<Rightarrow> Failure 500 MetadataFailed
      | Inr resolved \<Rightarrow>
          let odds = compute_odds userOptionIndex option0 option1 totalPool' in
          if resolved then
            (case winningOptionIndex c marketAddress of
               Inl e \<Rightarrow> Failure 500 MetadataFailed
             | Inr winningIndex \<Rightarrow>
                 MetadataDocument
                   (build_metadata tokenId (resolved_tier winningIndex userOptionIndex) odds
                      (resolved_result winningIndex userOptionIndex)))
          else
            MetadataDocument
              (build_metadata tokenId (unresolved_tier odds) odds ''Pending'')))))))"

section \<open>The resolution relay\<close>

record config =
  API_KEY :: "string option"

text \<open>
  \<^verbatim>\<open>apiKeyMiddleware\<close>: the header value is a string or absent, the configured key
  is a string or \<^verbatim>\<open>undefined\<close>. \<^verbatim>\<open>!providedApiKey\<close> holds for an absent and for
  an empty header; \<^verbatim>\<open>providedApiKey != API_KEY\<close> holds for a string against
  \<^verbatim>\<open>undefined\<close> and for two different strings. The result is the 401 response, or
  \<open>None\<close> when \<^verbatim>\<open>next()\<close> is called.
\<close>

definition apiKeyMiddleware :: "config \<Rightarrow> (string \<rightharpoonup> string) \<Rightarrow> response option" where
  "apiKeyMiddleware cfg headers =
     (let providedApiKey = headers ''x-api-key'' in
      if (case providedApiKey of None \<Rightarrow> True | Some k \<Rightarrow> k = []) \<or> providedApiKey \<noteq> API_KEY cfg
      then Some (Failure 401 Unauthorized)
      else None)"

text \<open>
  The body is \<^verbatim>\<open>req.body\<close> as \<^verbatim>\<open>express.json()\<close> leaves it, an object with the
  fields of the JSON text (none when the request carried no JSON object). An absent
  field reads as \<^verbatim>\<open>undefined\<close>.
\<close>

definition field :: "(string \<rightharpoonup> jsval) \<Rightarrow> string \<Rightarrow> jsval" where
  "field body k = (case body k of None \<Rightarrow> JUndefined | Some v \<Rightarrow> v)"

text \<open>
  The handler of \<^verbatim>\<open>POST /resolve-market\<close> behind the middleware. Only a string has
  a \<^verbatim>\<open>toLowerCase\<close> method: for any other truthy \<^verbatim>\<open>marketAddress\<close> the call throws
  before the store is touched.
\<close>

definition resolve_market :: "(string \<rightharpoonup> jsval) \<Rightarrow> js_object \<Rightarrow> response \<times> js_object" where
  "resolve_market body resolutionStore =
     (let marketAddress = field body ''marketAddress'';
          winningOptionIndex = field body ''winningOptionIndex''
      in if \<not> truthy marketAddress \<or> winningOptionIndex = JUndefined
         then (Failure 400 InvalidResolution, resolutionStore)
         else case marketAddress of
           JStr a \<Rightarrow>
             (Stored a winningOptionIndex,
              js_set resolutionStore (toLowerCase a) winningOptionIndex)
         | _ \<Rightarrow> (Failure 500 UncaughtException, resolutionStore))"

definition post_resolve_market ::
  "config \<Rightarrow> (string \<rightharpoonup> string) \<Rightarrow> (string \<rightharpoonup> jsval) \<Rightarrow> js_object \<Rightarrow> response \<times> js_object" where
  "post_resolve_market cfg headers body resolutionStore =
     (case apiKeyMiddleware cfg headers of
        Some r \<Rightarrow> (r, resolutionStore)
      | None \<Rightarrow> resolve_market body resolutionStore)"


section \<open>The server\<close>


definition empty_store :: js_object where
  "empty_store = \<lparr> own = Map.empty, proto = ObjectPrototype \<rparr>"




section \<open>Observations and scenarios\<close>


text \<open>The parts of a metadata response that the properties below talk about.\<close>

definition odds_attribute :: "response \<Rightarrow> string option" where
  "odds_attribute r =
     (case r of
        MetadataDocument d \<Rightarrow>
          (case attributes d of a # _ \<Rightarrow> Some (trait_value a) | [] \<Rightarrow> None)
      | _ \<Rightarrow> None)"

definition result_attribute :: "response \<Rightarrow> string option" where
  "result_attribute r =
     (case r of
        MetadataDocument d \<Rightarrow>
          (case attributes d of a # b # _ \<Rightarrow> Some (trait_value b) | _ \<Rightarrow> None)
      | _ \<Rightarrow> None)"

definition image_of :: "response \<Rightarrow> string option" where
  "image_of r = (case r of MetadataDocument d \<Rightarrow> Some (image_url d) | _ \<Rightarrow> None)"

text \<open>
  The specification's invariant for the odds, in its own words: they are expressed
  relative to the position's own option, so a position backing option \<open>i\<close> sees the
  pool fraction of option \<open>i\<close>. This is the reading to compare \<open>compute_odds\<close>
  with; it is not taken from the source.
\<close>

definition spec_own_option_odds :: "chain \<Rightarrow> string \<Rightarrow> uint256 \<Rightarrow> uint256 \<Rightarrow> chain_error + nat" where
  "spec_own_option_odds c marketAddress positionOptionIndex totalStake =
     (case options c marketAddress (unat positionOptionIndex) of
        Inl e \<Rightarrow> Inl e
      | Inr own_option \<Rightarrow>
          Inr (if 0 < unat totalStake
               then toNumber ((unat (option_totalPool own_option) * 100) div unat totalStake)
               else 50))"

text \<open>
  The end-to-end scenario of the specification: option 0 holds 30, option 1 holds 70,
  the total is 100, the market is unresolved and the position backs option 1.
\<close>

definition scenario_market :: string where
  "scenario_market = ''0x5FbDB2315678afecb367f032d93F642f64180aa3''"

definition scenario_chain :: chain where
  "scenario_chain =
     \<lparr> isAddress = (\<lambda>a. toLowerCase a = toLowerCase scenario_market),
       positionNFT = (\<lambda>a. Inr ''0xe7f1725E7734CE288F8367e1Bb143E90bb3F0512''),
       tokenOption = (\<lambda>nft tokenId. Inr 1),
       options = (\<lambda>a i. Inr \<lparr> option_name = 0,
                                option_totalPool = (if i = 0 then 30 else 70) \<rparr>),
       totalPool = (\<lambda>a. Inr 100),
       isResolved = (\<lambda>a. Inr False),
       winningOptionIndex = (\<lambda>a. Inl ChainReadError) \<rparr>"

text \<open>The same market after option 1 has won.\<close>

definition resolved_chain :: chain where
  "resolved_chain =
     scenario_chain \<lparr> isResolved := (\<lambda>a. Inr True), winningOptionIndex := (\<lambda>a. Inr 1) \<rparr>"

text \<open>
  A market with a third option: pools 30, 70 and 50, total 150, and a position that
  backs option 2.
\<close>

definition three_option_chain :: chain where
  "three_option_chain =
     scenario_chain
       \<lparr> tokenOption := (\<lambda>nft tokenId. Inr 2),
         options := (\<lambda>a i. Inr \<lparr> option_name = 0,
                                   option_totalPool = (if i = 0 then 30 else if i = 1 then 70 else 50) \<rparr>),
         totalPool := (\<lambda>a. Inr 150) \<rparr>"

text \<open>A market split 25 to 75, seen from a position that backs option 0.\<close>

definition quarter_chain :: chain where
  "quarter_chain =
     scenario_chain
       \<lparr> tokenOption := (\<lambda>nft tokenId. Inr 0),
         options := (\<lambda>a i. Inr \<lparr> option_name = 0,
                                   option_totalPool = (if i = 0 then 25 else 75) \<rparr>) \<rparr>"

text \<open>A relay configured with a secret, and a request that presents it.\<close>

definition scenario_config :: config where
  "scenario_config = \<lparr> API_KEY = Some ''s3cret'' \<rparr>"

definition scenario_headers :: "string \<rightharpoonup> string" where
  "scenario_headers = [''x-api-key'' \<mapsto> ''s3cret'']"

definition scenario_body :: "jsval \<Rightarrow> (string \<rightharpoonup> jsval)" where
  "scenario_body w = [''marketAddress'' \<mapsto> JStr scenario_market, ''winningOptionIndex'' \<mapsto> w]"


section \<open>Basic facts\<close>











section \<open>The relay: store and fetch\<close>




section \<open>The relay: absence\<close>









section \<open>The relay: validation and the API key\<close>


lemma apiKeyMiddleware_cases:
  "apiKeyMiddleware cfg headers =
     (if headers ''x-api-key'' = None \<or> headers ''x-api-key'' = Some []
         \<or> headers ''x-api-key'' \<noteq> API_KEY cfg
      then Some (Failure 401 Unauthorized) else None)"
  by (cases "headers ''x-api-key''"; cases "API_KEY cfg"; simp add: apiKeyMiddleware_def)

lemma resolve_market_status:
  "status (fst (resolve_market body store)) \<in> {200, 400, 500}"
  by (simp add: resolve_market_def Let_def split: jsval.splits)

lemma post_resolve_market_401:
  "(status (fst (post_resolve_market cfg headers body store)) = 401)
     = (apiKeyMiddleware cfg headers \<noteq> None)"
proof (cases "apiKeyMiddleware cfg headers")
  case None
  then show ?thesis
    using resolve_market_status [of body store] by (auto simp: post_resolve_market_def)
next
  case (Some r)
  then have "r = Failure 401 Unauthorized"
    by (simp add: apiKeyMiddleware_cases split: if_splits)
  with Some show ?thesis
    by (simp add: post_resolve_market_def)
qed




text \<open>
  C8, as the code has it. \<^verbatim>\<open>POST /resolve-market\<close> answers 401 exactly when the
  \<^verbatim>\<open>x-api-key\<close> header is absent, empty or different from the configured secret.
  With a non-empty secret configured this is: exactly when the header is not that
  secret. With no secret configured (or an empty one) every request is answered 401:
  the route is closed, not open.
\<close>

theorem api_key_check:
  "(status (fst (post_resolve_market cfg headers body store)) = 401)
     = (headers ''x-api-key'' = None \<or> headers ''x-api-key'' = Some []
        \<or> headers ''x-api-key'' \<noteq> API_KEY cfg)
   \<and> (API_KEY cfg = None \<or> API_KEY cfg = Some []
        \<longrightarrow> status (fst (post_resolve_market cfg headers body store)) = 401)
   \<and> (API_KEY cfg = Some k \<and> k \<noteq> []
        \<longrightarrow> (status (fst (post_resolve_market cfg headers body store)) = 401)
              = (headers ''x-api-key'' \<noteq> Some k))"
proof -
  have main: "(status (fst (post_resolve_market cfg headers body store)) = 401)
     = (headers ''x-api-key'' = None \<or> headers ''x-api-key'' = Some []
        \<or> headers ''x-api-key'' \<noteq> API_KEY cfg)"
    unfolding post_resolve_market_401
    by (cases "headers ''x-api-key''"; cases "API_KEY cfg"; auto simp: apiKeyMiddleware_cases)
  show ?thesis
    unfolding main by (cases "headers ''x-api-key''"; cases "API_KEY cfg"; auto)
qed

theorem api_key_check_witness:
  "status (fst (post_resolve_market \<lparr> API_KEY = Some [] \<rparr> [''x-api-key'' \<mapsto> []]
                  (scenario_body (JNum 1)) empty_store)) = 401
   \<and> status (fst (post_resolve_market scenario_config [''x-api-key'' \<mapsto> ''guess'']
                  (scenario_body (JNum 1)) empty_store)) = 401
   \<and> status (fst (post_resolve_market scenario_config scenario_headers
                  (scenario_body (JNum 1)) empty_store)) \<noteq> 401"
  using api_key_check [of "\<lparr> API_KEY = Some [] \<rparr>" "[''x-api-key'' \<mapsto> []]"
                          "scenario_body (JNum 1)" empty_store "''s3cret''"]
        api_key_check [of scenario_config "[''x-api-key'' \<mapsto> ''guess'']"
                          "scenario_body (JNum 1)" empty_store "''s3cret''"]
        api_key_check [of scenario_config scenario_headers
                          "scenario_body (JNum 1)" empty_store "''s3cret''"]
  by (simp add: scenario_config_def scenario_headers_def)

text \<open>
  C8 as stated fails: with no secret configured, a request is rejected with 401 whether
  it carries a key or not.
\<close>

theorem unset_key_counterexample:
  "status (fst (post_resolve_market \<lparr> API_KEY = None \<rparr> scenario_headers
                  (scenario_body (JNum 1)) empty_store)) = 401
   \<and> status (fst (post_resolve_market \<lparr> API_KEY = None \<rparr> Map.empty
                  (scenario_body (JNum 1)) empty_store)) = 401"
  by (simp add: post_resolve_market_def apiKeyMiddleware_def scenario_headers_def)



section \<open>The metadata route: what a successful read renders\<close>

text \<open>
  When the address is valid and every read succeeds, the handler answers with the
  document built from the reads. The winning index is only read, and only needed, on a
  resolved market.
\<close>

lemma get_metadata_reads:
  assumes "isAddress c m" "positionNFT c m = Inr nft" "tokenOption c nft t = Inr u"
    and "options c m 0 = Inr o0" "options c m 1 = Inr o1" "totalPool c m = Inr tp"
    and "isResolved c m = Inr r" "r \<Longrightarrow> winningOptionIndex c m = Inr w"
  shows "get_metadata c m t =
           MetadataDocument
             (build_metadata t
                (if r then resolved_tier w u else unresolved_tier (compute_odds u o0 o1 tp))
                (compute_odds u o0 o1 tp)
                (if r then resolved_result w u else ''Pending''))"
  using assms by (cases r) (simp_all add: get_metadata_def Let_def)

lemma odds_attribute_reads:
  assumes "isAddress c m" "positionNFT c m = Inr nft" "tokenOption c nft t = Inr u"
    and "options c m 0 = Inr o0" "options c m 1 = Inr o1" "totalPool c m = Inr tp"
    and "isResolved c m = Inr r" "r \<Longrightarrow> winningOptionIndex c m = Inr w"
  shows "odds_attribute (get_metadata c m t)
           = Some (toFixed2 (compute_odds u o0 o1 tp) @ ''%'')"
proof -
  have doc: "get_metadata c m t =
           MetadataDocument
             (build_metadata t
                (if r then resolved_tier w u else unresolved_tier (compute_odds u o0 o1 tp))
                (compute_odds u o0 o1 tp)
                (if r then resolved_result w u else ''Pending''))"
    using assms by (rule get_metadata_reads)
  show ?thesis
    by (simp add: doc odds_attribute_def build_metadata_def)
qed

lemma toFixed2_small: "toFixed2 50 = ''50.00''" "toFixed2 70 = ''70.00''"
  "toFixed2 46 = ''46.00''" "toFixed2 33 = ''33.00''" "toFixed2 25 = ''25.00''"
  by (simp_all add: toFixed2_def decimal.simps digit_char_def)

text \<open>
  \<^verbatim>\<open>Number\<close> is exact below \<open>2 ^ 53\<close> and rounds to the even neighbour above
  it.
\<close>

lemma toNumber_rounds_to_even:
  "toNumber (2 ^ 53 + 1) = 2 ^ 53"
  "toNumber (2 ^ 53 + 3) = 2 ^ 53 + 4"
  by (simp_all add: toNumber_def bit_length.simps Let_def)


lemma unresolved_tier_ranges:
  "(unresolved_tier p = huge_advantage) = (75 < p)"
  "(unresolved_tier p = slight_advantage) = (55 < p \<and> p \<le> 75)"
  "(unresolved_tier p = huge_disadvantage) = (p < 25)"
  "(unresolved_tier p = slight_disadvantage) = (25 \<le> p \<and> p < 45)"
  "(unresolved_tier p = initial) = (45 \<le> p \<and> p \<le> 55)"
  by (auto simp: unresolved_tier_def)

lemma scenario_reads:
  "isAddress scenario_chain scenario_market"
  "positionNFT scenario_chain scenario_market = Inr ''0xe7f1725E7734CE288F8367e1Bb143E90bb3F0512''"
  "tokenOption scenario_chain nft t = Inr 1"
  "options scenario_chain scenario_market 0 = Inr \<lparr> option_name = 0, option_totalPool = 30 \<rparr>"
  "options scenario_chain scenario_market 1 = Inr \<lparr> option_name = 0, option_totalPool = 70 \<rparr>"
  "totalPool scenario_chain scenario_market = Inr 100"
  "isResolved scenario_chain scenario_market = Inr False"
  by (simp_all add: scenario_chain_def)

lemma scenario_odds:
  "compute_odds 1 \<lparr> option_name = 0, option_totalPool = 30 \<rparr>
     \<lparr> option_name = 0, option_totalPool = 70 \<rparr> 100 = 70"
  by (simp add: compute_odds_def userOptionPool_def toNumber_def)

lemma scenario_metadata:
  "get_metadata scenario_chain scenario_market ''7'' =
     MetadataDocument (build_metadata ''7'' slight_advantage 70 ''Pending'')"
  using get_metadata_reads [where t = "''7''" and r = False, OF scenario_reads]
  by (simp add: scenario_odds unresolved_tier_def)

lemma quarter_reads:
  "isAddress quarter_chain scenario_market"
  "positionNFT quarter_chain scenario_market = Inr ''0xe7f1725E7734CE288F8367e1Bb143E90bb3F0512''"
  "tokenOption quarter_chain nft t = Inr 0"
  "options quarter_chain scenario_market 0 = Inr \<lparr> option_name = 0, option_totalPool = 25 \<rparr>"
  "options quarter_chain scenario_market 1 = Inr \<lparr> option_name = 0, option_totalPool = 75 \<rparr>"
  "totalPool quarter_chain scenario_market = Inr 100"
  "isResolved quarter_chain scenario_market = Inr False"
  by (simp_all add: quarter_chain_def scenario_chain_def)

lemma resolved_reads:
  "isAddress resolved_chain scenario_market"
  "positionNFT resolved_chain scenario_market = Inr ''0xe7f1725E7734CE288F8367e1Bb143E90bb3F0512''"
  "tokenOption resolved_chain nft t = Inr 1"
  "options resolved_chain scenario_market 0 = Inr \<lparr> option_name = 0, option_totalPool = 30 \<rparr>"
  "options resolved_chain scenario_market 1 = Inr \<lparr> option_name = 0, option_totalPool = 70 \<rparr>"
  "totalPool resolved_chain scenario_market = Inr 100"
  "isResolved resolved_chain scenario_market = Inr True"
  "winningOptionIndex resolved_chain scenario_market = Inr 1"
  by (simp_all add: resolved_chain_def scenario_chain_def)

lemma three_option_reads:
  "isAddress three_option_chain scenario_market"
  "positionNFT three_option_chain scenario_market = Inr ''0xe7f1725E7734CE288F8367e1Bb143E90bb3F0512''"
  "tokenOption three_option_chain nft t = Inr 2"
  "options three_option_chain scenario_market 0 = Inr \<lparr> option_name = 0, option_totalPool = 30 \<rparr>"
  "options three_option_chain scenario_market 1 = Inr \<lparr> option_name = 0, option_totalPool = 70 \<rparr>"
  "totalPool three_option_chain scenario_market = Inr 150"
  "isResolved three_option_chain scenario_market = Inr False"
  by (simp_all add: three_option_chain_def scenario_chain_def)

section \<open>The metadata route: tiers\<close>

text \<open>
  C2, as the code has it. On an unresolved market the image is the one of the tier
  chosen first-match from the odds \<open>p\<close>: above 75 \<open>huge_advantage\<close>, above 55 up to
  75 \<open>slight_advantage\<close>, below 25 \<open>huge_disadvantage\<close>, from 25 below 45
  \<open>slight_disadvantage\<close>, from 45 to 55 \<open>initial\<close>. So 76 gives
  \<open>huge_advantage\<close> and 50 gives \<open>initial\<close>, while the boundary 75 gives
  \<open>slight_advantage\<close> and the boundary 25 gives \<open>slight_disadvantage\<close>.
\<close>

theorem unresolved_tier_selection:
  assumes "isAddress c m" "positionNFT c m = Inr nft" "tokenOption c nft t = Inr u"
    and "options c m 0 = Inr o0" "options c m 1 = Inr o1" "totalPool c m = Inr tp"
    and "isResolved c m = Inr False"
  shows "image_of (get_metadata c m t)
           = Some (imageUrls (unresolved_tier (compute_odds u o0 o1 tp)))
       \<and> (unresolved_tier p = huge_advantage) = (75 < p)
       \<and> (unresolved_tier p = slight_advantage) = (55 < p \<and> p \<le> 75)
       \<and> (unresolved_tier p = huge_disadvantage) = (p < 25)
       \<and> (unresolved_tier p = slight_disadvantage) = (25 \<le> p \<and> p < 45)
       \<and> (unresolved_tier p = initial) = (45 \<le> p \<and> p \<le> 55)"
proof -
  have "get_metadata c m t =
          MetadataDocument
            (build_metadata t (unresolved_tier (compute_odds u o0 o1 tp))
               (compute_odds u o0 o1 tp) ''Pending'')"
    using get_metadata_reads [OF assms, of undefined] by simp
  then have "image_of (get_metadata c m t)
               = Some (imageUrls (unresolved_tier (compute_odds u o0 o1 tp)))"
    by (simp add: image_of_def build_metadata_def)
  then show ?thesis
    by (simp only: unresolved_tier_ranges simp_thms)
qed

theorem unresolved_tier_selection_witness:
  "image_of (get_metadata scenario_chain scenario_market ''7'')
     = Some (imageUrls slight_advantage)
   \<and> unresolved_tier 76 = huge_advantage
   \<and> unresolved_tier 75 = slight_advantage
   \<and> unresolved_tier 50 = initial
   \<and> unresolved_tier 25 = slight_disadvantage"
  using unresolved_tier_selection [where t = "''7''" and p = 76, OF scenario_reads]
    unresolved_tier_selection [where t = "''7''" and p = 75, OF scenario_reads]
    unresolved_tier_selection [where t = "''7''" and p = 50, OF scenario_reads]
    unresolved_tier_selection [where t = "''7''" and p = 25, OF scenario_reads]
    unresolved_tier_selection [where t = "''7''" and p = 70, OF scenario_reads]
  by (simp add: scenario_odds)

text \<open>
  C2 as stated fails at the boundaries: a position that holds 25 of 100 is shown
  25.00% with the image of \<open>slight_disadvantage\<close>, which is not the image of
  \<open>initial\<close>, and 75 does not select \<open>initial\<close> either.
\<close>

theorem tier_boundary_counterexample:
  "odds_attribute (get_metadata quarter_chain scenario_market ''7'') = Some ''25.00%''
   \<and> image_of (get_metadata quarter_chain scenario_market ''7'')
       = Some (imageUrls slight_disadvantage)
   \<and> imageUrls slight_disadvantage \<noteq> imageUrls initial
   \<and> unresolved_tier 25 \<noteq> initial
   \<and> unresolved_tier 75 \<noteq> initial"
proof -
  have odds: "compute_odds 0 \<lparr> option_name = 0, option_totalPool = 25 \<rparr>
                \<lparr> option_name = 0, option_totalPool = 75 \<rparr> 100 = 25"
    by (simp add: compute_odds_def userOptionPool_def toNumber_def)
  have "get_metadata quarter_chain scenario_market ''7'' =
          MetadataDocument (build_metadata ''7'' slight_disadvantage 25 ''Pending'')"
    using get_metadata_reads [where t = "''7''" and r = False, OF quarter_reads]
    by (simp add: odds unresolved_tier_def)
  then show ?thesis
    by (simp add: odds_attribute_def image_of_def build_metadata_def toFixed2_small
          unresolved_tier_def)
qed

section \<open>The metadata route: outcome\<close>

text \<open>
  C4. On a resolved market the \<^verbatim>\<open>Result\<close> attribute is \<^verbatim>\<open>Won\<close> exactly when
  the winning index and the position's option index are the same integer, and
  \<^verbatim>\<open>Lost\<close> otherwise; on an unresolved market it is \<^verbatim>\<open>Pending\<close>, whatever the
  pools are.
\<close>

theorem result_by_exact_equality:
  assumes "isAddress c m" "positionNFT c m = Inr nft" "tokenOption c nft t = Inr u"
    and "options c m 0 = Inr o0" "options c m 1 = Inr o1" "totalPool c m = Inr tp"
    and "isResolved c m = Inr r" "r \<Longrightarrow> winningOptionIndex c m = Inr w"
  shows "result_attribute (get_metadata c m t)
           = Some (if r then (if unat w = unat u then ''Won'' else ''Lost'') else ''Pending'')"
proof -
  have doc: "get_metadata c m t =
           MetadataDocument
             (build_metadata t
                (if r then resolved_tier w u else unresolved_tier (compute_odds u o0 o1 tp))
                (compute_odds u o0 o1 tp)
                (if r then resolved_result w u else ''Pending''))"
    using assms by (rule get_metadata_reads)
  have "result_attribute (get_metadata c m t)
          = Some (if r then resolved_result w u else ''Pending'')"
    by (simp add: doc result_attribute_def build_metadata_def)
  then show ?thesis
    by (simp add: resolved_result_def word_unat_eq_iff)
qed

theorem result_by_exact_equality_witness:
  "result_attribute (get_metadata resolved_chain scenario_market ''7'') = Some ''Won''
   \<and> result_attribute (get_metadata scenario_chain scenario_market ''7'') = Some ''Pending''"
  using result_by_exact_equality
          [where t = "''7''" and r = True and w = 1, OF resolved_reads(1-7)]
        result_by_exact_equality
          [where t = "''7''" and r = False and w = 1, OF scenario_reads]
  by (simp add: resolved_reads(8))

section \<open>The metadata route: odds\<close>

text \<open>
  C5, as the code has it. For a position that backs option 0 or option 1 the displayed
  odds are the ones the specification asks for, computed from the pool of the
  position's own option as \<^verbatim>\<open>tokenOption\<close> reports it. In the scenario of 30
  against 70 the position on option 1 is shown 70.00% and the image of
  \<open>slight_advantage\<close>.
\<close>

theorem odds_from_backed_option:
  assumes "isAddress c m" "positionNFT c m = Inr nft" "tokenOption c nft t = Inr u"
    and "options c m 0 = Inr o0" "options c m 1 = Inr o1" "totalPool c m = Inr tp"
    and "isResolved c m = Inr r" "r \<Longrightarrow> winningOptionIndex c m = Inr w"
    and binary: "u = 0 \<or> u = 1"
  shows "spec_own_option_odds c m u tp = Inr (compute_odds u o0 o1 tp)
       \<and> odds_attribute (get_metadata c m t)
           = Some (toFixed2 (compute_odds u o0 o1 tp) @ ''%'')"
proof -
  have "spec_own_option_odds c m u tp = Inr (compute_odds u o0 o1 tp)"
    using binary assms(4,5)
    by (auto simp: spec_own_option_odds_def compute_odds_def userOptionPool_def)
  moreover have "odds_attribute (get_metadata c m t)
                   = Some (toFixed2 (compute_odds u o0 o1 tp) @ ''%'')"
    using assms(1-8) by (rule odds_attribute_reads)
  ultimately show ?thesis by simp
qed

theorem odds_from_backed_option_witness:
  "spec_own_option_odds scenario_chain scenario_market 1 100 = Inr 70
   \<and> odds_attribute (get_metadata scenario_chain scenario_market ''7'') = Some ''70.00%''
   \<and> image_of (get_metadata scenario_chain scenario_market ''7'')
       = Some (imageUrls slight_advantage)"
  using odds_from_backed_option
          [where t = "''7''" and r = False and w = 1, OF scenario_reads]
  by (simp add: scenario_odds toFixed2_small scenario_metadata image_of_def build_metadata_def)

text \<open>
  C5 as stated fails beyond the second option: a position that backs option 2, whose
  pool is 50 of 150, is shown the 46.00% of option 1 instead of its own 33.
\<close>

theorem third_option_counterexample:
  "odds_attribute (get_metadata three_option_chain scenario_market ''7'') = Some ''46.00%''
   \<and> spec_own_option_odds three_option_chain scenario_market 2 150 = Inr 33"
proof -
  have odds: "compute_odds 2 \<lparr> option_name = 0, option_totalPool = 30 \<rparr>
                \<lparr> option_name = 0, option_totalPool = 70 \<rparr> 150 = 46"
    by (simp add: compute_odds_def userOptionPool_def toNumber_def)
  have "odds_attribute (get_metadata three_option_chain scenario_market ''7'')
          = Some (toFixed2 46 @ ''%'')"
    using odds_attribute_reads [where t = "''7''" and r = False, OF three_option_reads]
    by (simp add: odds)
  moreover have "spec_own_option_odds three_option_chain scenario_market 2 150 = Inr 33"
    by (simp add: spec_own_option_odds_def three_option_chain_def scenario_chain_def
          toNumber_def)
  ultimately show ?thesis
    by (simp add: toFixed2_small)
qed



section \<open>The metadata route and the store\<close>


end
